theory Spec2Isabelle
  imports Main "HOL-Library.List_Lexorder" "HOL-Library.Char_ord"
begin

section \<open>dawgmon: the comparison engine and the command-line driver\<close>

text \<open>
  The development embeds \<^verbatim>\<open>dawgmon.py\<close>: \<^verbatim>\<open>compare_output\<close>, \<^verbatim>\<open>print_anomalies\<close>
  and \<^verbatim>\<open>run\<close>. The modules \<^verbatim>\<open>commands\<close>, \<^verbatim>\<open>utils\<close>, \<^verbatim>\<open>cache\<close> and \<^verbatim>\<open>local\<close> that the
  file imports are not part of the sources; what the functions need of them is either a
  parameter (the probe registry, the collector, the process environment) or a definition
  marked as modelled from the specification.
\<close>

subsection \<open>Anomalies and probes (module \<^verbatim>\<open>commands\<close>)\<close>

datatype kind = CHANGE | WARNING | DEBUG

text \<open>An anomaly is the pair the source indexes with \<^verbatim>\<open>x[0]\<close> (kind) and \<^verbatim>\<open>x[1]\<close> (message).\<close>

type_synonym anomaly = "kind \<times> string"

text \<open>
  Modelled from the spec: \<^verbatim>\<open>commands.W\<close>, the constructor of a WARNING anomaly, is not in
  the sources; the specification gives an anomaly as a kind and a message.
\<close>

definition W :: "string \<Rightarrow> anomaly" where
  "W msg = (WARNING, msg)"

text \<open>
  What a probe's \<^verbatim>\<open>compare\<close> may hand back. Python is untyped, and the source tests
  \<^verbatim>\<open>type(ret) != list\<close>: only \<open>PyList\<close> passes that test.
\<close>

datatype retval = PyList "anomaly list" | PyNone | PyTuple "anomaly list" | PyStr string

text \<open>
  A probe object: its name and its two methods. \<open>'s\<close> is the structured value that
  \<^verbatim>\<open>parse\<close> produces. A probe object is truthy (it defines neither \<^verbatim>\<open>__bool__\<close> nor
  \<^verbatim>\<open>__len__\<close> as far as the source relies on it), so \<^verbatim>\<open>not cmd\<close> holds exactly when the
  registry lookup gave \<^verbatim>\<open>None\<close>.
\<close>

record 's command =
  name :: string
  parse :: "string \<Rightarrow> 's"
  compare :: "'s \<Rightarrow> 's \<Rightarrow> retval"

text \<open>
  The module \<^verbatim>\<open>commands\<close> as the source reads it: the list \<^verbatim>\<open>COMMANDS\<close> and the
  dictionary \<^verbatim>\<open>COMMAND_CACHE\<close> from probe name to probe (an association list, in key
  order). Both are parameters of the model.
\<close>

record 's commands =
  COMMANDS :: "'s command list"
  COMMAND_CACHE :: "(string \<times> 's command) list"

subsection \<open>Snapshots and the task list (module \<^verbatim>\<open>utils\<close>)\<close>

text \<open>
  A snapshot is a Python dictionary from probe name to raw output; the association list
  keeps the insertion order of its keys. \<^verbatim>\<open>d[k]\<close> and \<^verbatim>\<open>k in d\<close> are \<open>map_of d k\<close>.
\<close>

type_synonym snapshot = "(string \<times> string) list"

text \<open>
  Modelled from the spec: \<^verbatim>\<open>utils.merge_keys_to_list\<close> is not in the sources. The
  specification: all keys of \<open>old\<close> in their original order, followed by the keys present
  only in \<open>new\<close> in their original order.
\<close>

definition merge_keys_to_list :: "snapshot \<Rightarrow> snapshot \<Rightarrow> string list" where
  "merge_keys_to_list old new =
     map fst old @ filter (\<lambda>k. k \<notin> set (map fst old)) (map fst new)"

subsection \<open>\<^verbatim>\<open>compare_output\<close>\<close>

text \<open>
  The two ways the function raises: \<^verbatim>\<open>new[task_name]\<close> on a missing key, and the explicit
  \<^verbatim>\<open>raise Exception("unexpected return value type ...")\<close>. \<open>TypeError\<close> is raised by
  \<^verbatim>\<open>run\<close> only. \<open>CacheLoadError\<close> stands for a backing file that cannot be read.
\<close>

datatype error = KeyError string | UnexpectedReturnType string | TypeError | CacheLoadError

text \<open>
  The calls the loop makes on probes, in order. The source has no such log; it is the
  record of the effect "a probe method was invoked", kept so that statements about which
  methods run can be made.
\<close>

datatype 's call = ParseCall string string | CompareCall string 's 's

text \<open>Python's truthiness of an optional list: \<^verbatim>\<open>None\<close> and \<^verbatim>\<open>[]\<close> are false.\<close>

fun truthy :: "'a list option \<Rightarrow> bool" where
  "truthy None = False"
| "truthy (Some xs) = (xs \<noteq> [])"

definition unknown_command_msg :: "string \<Rightarrow> string" where
  "unknown_command_msg task_name =
     ''unknown command with name '' @ task_name @ '' found (cache generated by older version?)''"

text \<open>
  The \<^verbatim>\<open>for task_name in tasks\<close> loop (lines 19 to 34), with the running \<^verbatim>\<open>anomalies\<close>
  and the log of calls. The order of the tests is the source's: registry lookup, then the
  filter, then the work.
\<close>

fun compare_loop ::
  "'s commands \<Rightarrow> snapshot \<Rightarrow> snapshot \<Rightarrow> string list option \<Rightarrow> string list \<Rightarrow>
   anomaly list \<Rightarrow> 's call list \<Rightarrow> (error + anomaly list) \<times> 's call list" where
  "compare_loop commands old new commandlist [] anomalies calls = (Inr anomalies, calls)"
| "compare_loop commands old new commandlist (task_name # tasks) anomalies calls =
     (case map_of (COMMAND_CACHE commands) task_name of
        None \<Rightarrow>
          compare_loop commands old new commandlist tasks
            (anomalies @ [W (unknown_command_msg task_name)]) calls
      | Some cmd \<Rightarrow>
          if truthy commandlist \<and> task_name \<notin> set (the commandlist) then
            compare_loop commands old new commandlist tasks anomalies calls
          else
            let old_data = (case map_of old task_name of Some v \<Rightarrow> v | None \<Rightarrow> '''');
                old_parsed = parse cmd old_data;
                calls1 = calls @ [ParseCall task_name old_data]
            in (case map_of new task_name of
                  None \<Rightarrow> (Inl (KeyError task_name), calls1)
                | Some new_raw \<Rightarrow>
                    let new_parsed = parse cmd new_raw;
                        calls2 = calls1 @ [ParseCall task_name new_raw];
                        ret = compare cmd old_parsed new_parsed;
                        calls3 = calls2 @ [CompareCall task_name old_parsed new_parsed]
                    in (case ret of
                          PyList r \<Rightarrow>
                            compare_loop commands old new commandlist tasks
                              (if r \<noteq> [] \<and> length r > 0 then anomalies @ r else anomalies)
                              calls3
                        | _ \<Rightarrow> (Inl (UnexpectedReturnType task_name), calls3))))"

text \<open>
  \<^verbatim>\<open>compare_output(old, new, commandlist=None)\<close> with its log of probe calls. \<open>old\<close> is
  \<open>None\<close> or a dictionary; \<^verbatim>\<open>if not old: old = {}\<close> replaces both \<^verbatim>\<open>None\<close> and the empty
  dictionary.
\<close>

definition or_empty :: "snapshot option \<Rightarrow> snapshot" where
  "or_empty old = (if \<not> truthy old then [] else the old)"

definition compare_output_calls ::
  "'s commands \<Rightarrow> snapshot option \<Rightarrow> snapshot \<Rightarrow> string list option \<Rightarrow>
   (error + anomaly list) \<times> 's call list" where
  "compare_output_calls commands old new commandlist =
     (let old = or_empty old;
          tasks = merge_keys_to_list old new
      in compare_loop commands old new commandlist tasks [] [])"

text \<open>What the function returns (\<open>Inr\<close>) or raises (\<open>Inl\<close>).\<close>

definition compare_output ::
  "'s commands \<Rightarrow> snapshot option \<Rightarrow> snapshot \<Rightarrow> string list option \<Rightarrow> error + anomaly list" where
  "compare_output commands old new commandlist =
     fst (compare_output_calls commands old new commandlist)"

text \<open>The task a logged call belongs to, and the test \<^verbatim>\<open>type(ret) == list\<close>.\<close>

fun call_name :: "'s call \<Rightarrow> string" where
  "call_name (ParseCall t _) = t"
| "call_name (CompareCall t _ _) = t"

fun is_list :: "retval \<Rightarrow> bool" where
  "is_list (PyList _) = True"
| "is_list _ = False"

text \<open>
  What one task adds to the result of a call that returns: the warning for a name the
  registry does not know, nothing for a registered name the filter excludes, and otherwise
  the list its probe's \<^verbatim>\<open>compare\<close> returned. This is the reading of "each task's result"
  that the theorems below compare the loop with; the loop itself does not use it.
\<close>

definition task_anomalies ::
  "'s commands \<Rightarrow> snapshot \<Rightarrow> snapshot \<Rightarrow> string list option \<Rightarrow> string \<Rightarrow> anomaly list" where
  "task_anomalies commands old new commandlist task_name =
     (case map_of (COMMAND_CACHE commands) task_name of
        None \<Rightarrow> [W (unknown_command_msg task_name)]
      | Some cmd \<Rightarrow>
          if truthy commandlist \<and> task_name \<notin> set (the commandlist) then []
          else (case map_of new task_name of
                  None \<Rightarrow> []
                | Some new_raw \<Rightarrow>
                    (case compare cmd
                            (parse cmd (case map_of old task_name of Some v \<Rightarrow> v | None \<Rightarrow> ''''))
                            (parse cmd new_raw) of
                       PyList r \<Rightarrow> r
                     | _ \<Rightarrow> [])))"

subsection \<open>\<^verbatim>\<open>print_anomalies\<close>\<close>

text \<open>\<^verbatim>\<open>%i\<close> of a non-negative and of any integer, in decimal.\<close>

fun fmt_nat :: "nat \<Rightarrow> string" where
  "fmt_nat n =
     (if n < 10 then [''0123456789'' ! n]
      else fmt_nat (n div 10) @ [''0123456789'' ! (n mod 10)])"

definition fmt_int :: "int \<Rightarrow> string" where
  "fmt_int i = (if i < 0 then CHR ''-'' # fmt_nat (nat (- i)) else fmt_nat (nat i))"

text \<open>The plural suffix \<^verbatim>\<open>"s" if n != 1 else ""\<close>.\<close>

definition plural :: "nat \<Rightarrow> string" where
  "plural n = (if n \<noteq> 1 then ''s'' else '''')"

text \<open>
  The function prints; the model returns the printed lines in order. The escape
  character of the colour codes is \<open>CHR 0x1B\<close>.
\<close>

definition print_anomalies :: "anomaly list \<Rightarrow> bool \<Rightarrow> bool \<Rightarrow> string list" where
  "print_anomalies anomalies show_debug show_color =
     (let changes = filter (\<lambda>x. fst x = CHANGE) anomalies;
          warning = filter (\<lambda>x. fst x = WARNING) anomalies;
          debug = (if show_debug then filter (\<lambda>x. fst x = DEBUG) anomalies else []);
          c1 = (if show_color then CHR 0x1B # ''[32m'' else '''');
          c2 = (if show_color then CHR 0x1B # ''[31m'' else '''');
          c3 = (if show_color then CHR 0x1B # ''[36m'' else '''');
          c4 = (if show_color then CHR 0x1B # ''[34m'' else '''');
          c_end = (if show_color then CHR 0x1B # ''[0m'' else '''');
          la = length changes; lw = length warning; ld = length debug;
          debugs = (if ld > 0 then '' and '' @ fmt_nat ld @ '' debug message'' @ plural ld
                    else '''')
      in [c1 @ fmt_nat la @ '' change'' @ plural la @ '' detected ('' @ fmt_nat lw @
            '' warning'' @ plural lw @ debugs @ '')'' @ c_end]
         @ map (\<lambda>w. c2 @ ''! '' @ snd w @ c_end) warning
         @ map (\<lambda>c. c3 @ ''+ '' @ snd c @ c_end) changes
         @ (if show_debug then map (\<lambda>d. c4 @ ''- '' @ snd d @ c_end) debug else []))"

subsection \<open>The snapshot store (module \<^verbatim>\<open>cache\<close>)\<close>

text \<open>
  A cache entry: \<^verbatim>\<open>entry["id"]\<close>, \<^verbatim>\<open>entry["timestamp"]\<close> and the stored snapshot. The
  field for the id is \<open>entry_id\<close>, since \<open>id\<close> is HOL's identity function.
\<close>

record cache_entry =
  entry_id :: int
  timestamp :: string
  entry_snapshot :: snapshot

text \<open>What the backing location holds: nothing, something unreadable, or a list of entries.\<close>

datatype stored = Corrupt | Stored "cache_entry list"

type_synonym filesystem = "string \<Rightarrow> stored option"

text \<open>
  Modelled from the spec: the class \<^verbatim>\<open>Cache\<close> is not in the sources. \<open>load\<close>: a missing
  backing location gives an empty store, a present but unreadable one is fatal.
\<close>

definition load :: "filesystem \<Rightarrow> string \<Rightarrow> error + cache_entry list" where
  "load fs location =
     (case fs location of
        None \<Rightarrow> Inr []
      | Some Corrupt \<Rightarrow> Inl CacheLoadError
      | Some (Stored es) \<Rightarrow> Inr es)"

text \<open>Modelled from the spec: \<open>entries()\<close>, the entries in ascending id order.\<close>

definition get_entries :: "cache_entry list \<Rightarrow> cache_entry list" where
  "get_entries es = sort_key entry_id es"

text \<open>
  Modelled from the spec: \<open>lastEntry()\<close>, the snapshot of the entry with the greatest id,
  or absent if the store is empty.
\<close>

definition get_last_entry :: "cache_entry list \<Rightarrow> snapshot option" where
  "get_last_entry es =
     (case es of
        [] \<Rightarrow> None
      | e # rest \<Rightarrow> Some (entry_snapshot (fold (\<lambda>x best. if entry_id best < entry_id x then x else best) rest e)))"

text \<open>Modelled from the spec: \<open>entry(id)\<close>, exact id lookup, absent if there is none.\<close>

definition get_entry :: "cache_entry list \<Rightarrow> int \<Rightarrow> snapshot option" where
  "get_entry es i = map_option entry_snapshot (find (\<lambda>e. entry_id e = i) es)"

text \<open>
  Modelled from the spec: \<open>addEntry(snapshot)\<close> assigns the greatest existing id plus one
  (or 1 if the store is empty) and the current time, and appends.
\<close>

definition add_entry :: "cache_entry list \<Rightarrow> string \<Rightarrow> snapshot \<Rightarrow> cache_entry list" where
  "add_entry es now_ts s =
     es @ [\<lparr>entry_id = (case map entry_id es of [] \<Rightarrow> 1 | i # ids \<Rightarrow> fold max ids i + 1),
            timestamp = now_ts, entry_snapshot = s\<rparr>]"

text \<open>
  Modelled from the spec: \<open>purge(maxEntries)\<close> retains only the \<open>maxEntries\<close> entries with
  the greatest ids: an entry stays when fewer than \<open>maxEntries\<close> entries have a greater id.
\<close>

definition purge :: "cache_entry list \<Rightarrow> int \<Rightarrow> cache_entry list" where
  "purge es max_entries =
     filter (\<lambda>e. int (length (filter (\<lambda>x. entry_id e < entry_id x) es)) < max_entries) es"

text \<open>Modelled from the spec: \<open>save()\<close> overwrites the backing location with the entries.\<close>

definition save :: "filesystem \<Rightarrow> string \<Rightarrow> cache_entry list \<Rightarrow> filesystem" where
  "save fs location es = fs(location := Some (Stored es))"

subsection \<open>\<^verbatim>\<open>run\<close>\<close>

text \<open>The result of \<^verbatim>\<open>parser.parse_args()\<close>, field by field (\<^verbatim>\<open>dest=\<close> names).\<close>

record args =
  analyze :: bool
  compare_cache :: "(int \<times> int) option"
  list_commands :: bool
  list_cache :: bool
  show_debug :: bool
  commandlist :: "string list option"
  force :: bool
  colorize :: bool
  cache_location :: "string option"
  max_cache_entries :: int

text \<open>
  What \<^verbatim>\<open>run\<close> reads from outside: \<^verbatim>\<open>os.getenv("HOME")\<close>, \<^verbatim>\<open>os.geteuid()\<close>, the line
  \<^verbatim>\<open>input\<close> returns, the collector \<^verbatim>\<open>local_run\<close> (module \<^verbatim>\<open>local\<close>, not in the sources),
  the files, and the time \<^verbatim>\<open>add_entry\<close> stamps an entry with.
\<close>

record env =
  getenv_HOME :: "string option"
  geteuid :: nat
  input_answer :: string
  local_run :: "string \<Rightarrow> string list \<Rightarrow> snapshot"
  files :: filesystem
  now :: string

text \<open>The effects of a run, in order, and how it ends.\<close>

datatype event =
    Print string
  | Input string
  | SysExit int
  | CacheLoad string
  | LocalRun "string list"
  | CacheAddEntry
  | CallCompareOutput
  | CachePurge int
  | CacheSave

datatype status = Returned | Exited int | Raised error

record outcome =
  events :: "event list"
  files_after :: filesystem
  status :: status

text \<open>\<^verbatim>\<open>os.path.join\<close> of two components on POSIX.\<close>

definition os_path_join :: "string \<Rightarrow> string \<Rightarrow> string" where
  "os_path_join a b =
     (if b \<noteq> [] \<and> hd b = CHR ''/'' then b
      else if a = [] \<or> last a = CHR ''/'' then a @ b
      else a @ ''/'' @ b)"

text \<open>
  Lines 85 and 86: the cache location, or \<^verbatim>\<open>$HOME/.dawgmon.db\<close>. \<^verbatim>\<open>os.path.join\<close> raises
  \<^verbatim>\<open>TypeError\<close> when \<^verbatim>\<open>HOME\<close> is unset; that is the result \<open>None\<close>.
\<close>

definition resolve_location :: "env \<Rightarrow> args \<Rightarrow> string option" where
  "resolve_location env args =
     (if \<not> truthy (cache_location args)
      then map_option (\<lambda>home. os_path_join home ''.dawgmon.db'') (getenv_HOME env)
      else cache_location args)"

text \<open>\<^verbatim>\<open>"{:4d}".format(n)\<close>: right-aligned in four columns.\<close>

definition fmt_4d :: "int \<Rightarrow> string" where
  "fmt_4d n = replicate (4 - length (fmt_int n)) CHR '' '' @ fmt_int n"

text \<open>
  Lines 127 to 147: where \<open>old\<close> and \<open>new\<close> come from. The result is either an early
  \<^verbatim>\<open>return\<close> (\<open>Inl\<close>: the events and the status) or the state line 152 starts from
  (\<open>Inr\<close>: the anomalies so far, \<open>old\<close>, \<open>new\<close>, the entries of the cache and the events).
  In the \<^verbatim>\<open>else\<close> branch \<^verbatim>\<open>args.compare_cache\<close> is a pair whenever line 88 let the run
  pass; indexing \<^verbatim>\<open>None\<close> would raise \<^verbatim>\<open>TypeError\<close>.
\<close>

definition select_snapshots ::
  "env \<Rightarrow> string \<Rightarrow> args \<Rightarrow> bool \<Rightarrow> string list \<Rightarrow> cache_entry list \<Rightarrow>
   (event list \<times> status) +
   (anomaly list \<times> snapshot option \<times> snapshot \<times> cache_entry list \<times> event list)" where
  "select_snapshots env tmpdirname args add_to_cache commandlist' entries =
     (if analyze args then
        let new = local_run env tmpdirname commandlist';
            old = get_last_entry entries
        in if add_to_cache then
             Inr ((if \<not> truthy old then [W ''no cache entry found yet so caching baseline'']
                   else []),
                  old, new, add_entry entries (now env) new,
                  [LocalRun commandlist', CacheAddEntry])
           else
             Inr ([W ''results NOT cached as only partial command list being run''],
                  old, new, entries, [LocalRun commandlist'])
      else
        (case compare_cache args of
           None \<Rightarrow> Inl ([], Raised TypeError)
         | Some (id1, id2) \<Rightarrow>
             let new = get_entry entries id2 in
             if \<not> truthy new then
               Inl ([Print (''cannot find cache entry with id '' @ fmt_int id2)], Returned)
             else
               let old = get_entry entries id1 in
               if \<not> truthy old then
                 Inl ([Print (''cannot find cache entry with id '' @ fmt_int id1)], Returned)
               else Inr ([], old, the new, entries, [])))"

text \<open>
  Lines 149 to 159: the diff, its printing, and the update of the cache. An exception of
  \<^verbatim>\<open>compare_output\<close> ends the run there.
\<close>

definition diff_and_update ::
  "'s commands \<Rightarrow> env \<Rightarrow> args \<Rightarrow> string \<Rightarrow> string list \<Rightarrow> event list \<Rightarrow>
   anomaly list \<Rightarrow> snapshot option \<Rightarrow> snapshot \<Rightarrow> cache_entry list \<Rightarrow> outcome" where
  "diff_and_update commands env args location commandlist' evs anomalies old new entries =
     (case compare_output commands old new (Some commandlist') of
        Inl e \<Rightarrow>
          \<lparr>events = evs @ [CallCompareOutput], files_after = files env, status = Raised e\<rparr>
      | Inr diff \<Rightarrow>
          let anomalies = anomalies @ diff;
              printed = print_anomalies anomalies (show_debug args) (colorize args);
              entries = purge entries (max_cache_entries args)
          in \<lparr>events = evs @ [CallCompareOutput] @ map Print printed
                         @ [CachePurge (max_cache_entries args), CacheSave],
              files_after = save (files env) location entries,
              status = Returned\<rparr>)"

text \<open>
  \<^verbatim>\<open>run(tmpdirname)\<close>, after \<^verbatim>\<open>parse_args\<close>. The tests come in the order of the source:
  the bound on \<^verbatim>\<open>-m\<close> (line 81), the cache location, the action (line 88), the root
  prompt (line 92), the load of the cache, the two listings, and then the analysis or
  the comparison of two entries.
\<close>

definition run :: "'s commands \<Rightarrow> env \<Rightarrow> string \<Rightarrow> args \<Rightarrow> outcome" where
  "run commands env tmpdirname args =
     (if max_cache_entries args < 1 \<or> max_cache_entries args > 1024 then
        \<lparr>events = [Print ''maximum number of cache entries invalid or set too high [1-1024]'',
                   SysExit 1],
         files_after = files env, status = Exited 1\<rparr>
      else
        (case resolve_location env args of
           None \<Rightarrow> \<lparr>events = [], files_after = files env, status = Raised TypeError\<rparr>
         | Some location \<Rightarrow>
             if \<not> list_cache args \<and> \<not> list_commands args \<and> \<not> analyze args
                \<and> compare_cache args = None then
               \<lparr>events = [Print ''select an action -A/C/E/L''],
                files_after = files env, status = Returned\<rparr>
             else
               let ask = (\<not> force args \<and> geteuid env \<noteq> 0 \<and> analyze args);
                   ev0 = (if ask then
                            [Print ''It's strongly recommended to run an analysis as root.'',
                             Input ''Continue anyway with the analysis y/n? '']
                          else [])
               in if ask \<and> (length (input_answer env) \<noteq> 1
                             \<or> hd (input_answer env) \<notin> {CHR ''y'', CHR ''Y''}) then
                    \<lparr>events = ev0, files_after = files env, status = Returned\<rparr>
                  else
                    (case load (files env) location of
                       Inl e \<Rightarrow>
                         \<lparr>events = ev0 @ [CacheLoad location], files_after = files env,
                          status = Raised e\<rparr>
                     | Inr entries \<Rightarrow>
                         let ev1 = ev0 @ [CacheLoad location] in
                         if list_cache args then
                           \<lparr>events = ev1 @ Print (''  ID'' @ [CHR 0x09] @ ''TIMESTAMP'')
                              # map (\<lambda>entry. Print (fmt_4d (entry_id entry) @ [CHR 0x09]
                                                     @ timestamp entry))
                                  (get_entries entries),
                            files_after = files env, status = Returned\<rparr>
                         else if list_commands args then
                           \<lparr>events = ev1 @ map Print (sort (map fst (COMMAND_CACHE commands))),
                            files_after = files env, status = Returned\<rparr>
                         else
                           let add_to_cache = (\<not> truthy (commandlist args) \<and> analyze args);
                               commandlist' =
                                 (if \<not> truthy (commandlist args)
                                  then map name (COMMANDS commands)
                                  else the (commandlist args))
                           in (case select_snapshots env tmpdirname args add_to_cache
                                      commandlist' entries of
                                 Inl (evs, st) \<Rightarrow>
                                   \<lparr>events = ev1 @ evs, files_after = files env, status = st\<rparr>
                               | Inr (anomalies, old, new, entries', evs) \<Rightarrow>
                                   diff_and_update commands env args location commandlist'
                                     (ev1 @ evs) anomalies old new entries'))))"

subsection \<open>Two probes and a registry to run the functions on\<close>

text \<open>
  A probe whose structured value is the raw text and which reports the new text as one
  CHANGE when it differs, a probe whose \<^verbatim>\<open>compare\<close> returns \<^verbatim>\<open>None\<close>, and the registry of
  the two. They are inputs for the examples, not part of the program.
\<close>

definition line_probe :: "string command" where
  "line_probe = \<lparr>name = ''users'', parse = (\<lambda>raw. raw),
     compare = (\<lambda>a b. PyList (if a = b then [] else [(CHANGE, b)]))\<rparr>"

definition broken_probe :: "string command" where
  "broken_probe = \<lparr>name = ''broken'', parse = (\<lambda>raw. raw), compare = (\<lambda>a b. PyNone)\<rparr>"

definition test_commands :: "string commands" where
  "test_commands = \<lparr>COMMANDS = [line_probe, broken_probe],
     COMMAND_CACHE = [(''users'', line_probe), (''broken'', broken_probe)]\<rparr>"

section \<open>Properties of \<^verbatim>\<open>compare_output\<close>\<close>

text \<open>
  C3. Calling \<^verbatim>\<open>compare_output\<close> with \<open>old\<close> absent (\<^verbatim>\<open>None\<close>) returns exactly what the
  call with \<open>old\<close> the empty dictionary returns, for every \<open>new\<close> and every filter: the same
  anomaly sequence or the same exception, after the same probe calls.
\<close>

theorem compare_output_absent_is_empty:
  "compare_output commands None new flt = compare_output commands (Some []) new flt
   \<and> compare_output_calls commands None new flt = compare_output_calls commands (Some []) new flt"
  by (simp add: compare_output_def compare_output_calls_def or_empty_def)

end
